theory Spec2Isabelle
  imports Complex_Main
begin

section \<open>Python values, exceptions and dictionaries\<close>

text \<open>
  The bot is dynamically typed Python. The values its attributes hold are numbers,
  strings and \<^verbatim>\<open>None\<close>. A number is idealised to a real (\<open>PyNum\<close>): rounding and
  infinities are not modelled. The float NaN, which the threshold command can store, is a
  value of its own (\<open>PyNaN\<close>).

  \<open>py_error\<close> lists the exceptions the modelled code can raise. All of them are subclasses
  of \<^verbatim>\<open>Exception\<close>, which is what every \<^verbatim>\<open>except Exception\<close> clause of the source catches.
\<close>

datatype py_error =
  TypeError | KeyError | ValueError | AttributeError | ConnectionError | InvalidOperation

datatype pyval = PyNum real | PyNaN | PyStr string | PyNone

text \<open>
  A \<^verbatim>\<open>float\<close> as \<^verbatim>\<open>float(text)\<close> parses it from a command: finite, an infinity or NaN.
\<close>

datatype py_float = Finite real | PosInf | NegInf | NaN

text \<open>
  A \<^verbatim>\<open>dict\<close> keeps its keys in insertion order, and the detector iterates over them, so
  a dict is an association list. \<^verbatim>\<open>d[k]\<close> raises \<^verbatim>\<open>KeyError\<close> on a missing key;
  \<^verbatim>\<open>d[k] = v\<close> overwrites in place or appends; \<^verbatim>\<open>d.get(k, default)\<close> never raises.
\<close>

type_synonym 'v pydict = "(string \<times> 'v) list"

definition dict_keys :: "'v pydict \<Rightarrow> string list" where
  "dict_keys d = map fst d"

definition dict_getitem :: "'v pydict \<Rightarrow> string \<Rightarrow> py_error + 'v" where
  "dict_getitem d k = (case map_of d k of None \<Rightarrow> Inl KeyError | Some v \<Rightarrow> Inr v)"

fun dict_setitem :: "'v pydict \<Rightarrow> string \<Rightarrow> 'v \<Rightarrow> 'v pydict" where
  "dict_setitem [] k v = [(k, v)]"
| "dict_setitem ((k', v') # d) k v =
     (if k' = k then (k, v) # d else (k', v') # dict_setitem d k v)"

definition dict_get :: "'v pydict \<Rightarrow> string \<Rightarrow> 'v \<Rightarrow> 'v" where
  "dict_get d k dflt = (case map_of d k of None \<Rightarrow> dflt | Some v \<Rightarrow> v)"

text \<open>
  \<^verbatim>\<open>x >= y\<close> with a float on the left: the comparison when \<open>y\<close> is a number, false when
  \<open>y\<close> is NaN, \<^verbatim>\<open>TypeError\<close> when \<open>y\<close> is a string or \<^verbatim>\<open>None\<close>.
\<close>

definition py_ge :: "real \<Rightarrow> pyval \<Rightarrow> py_error + bool" where
  "py_ge x v =
     (case v of
        PyNum y \<Rightarrow> Inr (y \<le> x)
      | PyNaN \<Rightarrow> Inr False
      | PyStr s \<Rightarrow> Inl TypeError
      | PyNone \<Rightarrow> Inl TypeError)"

text \<open>
  \<^verbatim>\<open>sorted(xs, key=f, reverse=True)\<close>: CPython reverses the list, sorts it with a stable
  ascending sort and reverses the result, so that equal keys keep their original order.
  \<^const>\<open>sort_key\<close> is a stable ascending sort.
\<close>

definition py_sorted_reverse :: "('a \<Rightarrow> 'k::linorder) \<Rightarrow> 'a list \<Rightarrow> 'a list" where
  "py_sorted_reverse f xs = rev (sort_key f (rev xs))"


section \<open>monitorbot.py: the data\<close>

text \<open>\<^verbatim>\<open>class TradingPair\<close>; \<^verbatim>\<open>__str__\<close> is \<^verbatim>\<open>f"{self.base}/{self.quote}"\<close>.\<close>

record trading_pair =
  base :: string
  quote :: string
  amount :: pyval

definition str_pair :: "trading_pair \<Rightarrow> string" where
  "str_pair tp = base tp @ ''/'' @ quote tp"

text \<open>The dict that \<^verbatim>\<open>find_arbitrage_opportunities\<close> appends, one field per key.\<close>

record opportunity =
  pair :: string
  buy_exchange :: string
  sell_exchange :: string
  buy_price :: real
  sell_price :: real
  profit_percentage :: real
  timestamp :: string

text \<open>
  The attributes of \<^verbatim>\<open>ArbitrageBot\<close>. \<open>threshold\<close> and \<open>max_loan_amount\<close> are whatever
  the constructor, \<^verbatim>\<open>load_config\<close> (from JSON) or an update put there, hence \<open>pyval\<close>.
\<close>

record arbitrage_bot =
  exchanges :: "string list"
  pairs :: "trading_pair list"
  threshold :: pyval
  max_loan_amount :: pyval
  monitoring_enabled :: bool
  notification_enabled :: bool
  slack_webhook :: "string option"


section \<open>monitorbot.py: \<^verbatim>\<open>find_arbitrage_opportunities\<close>\<close>

text \<open>
  The body of the two nested loops for one \<open>(buy_exchange, sell_exchange)\<close>. Each appended
  record reads the clock once (\<^verbatim>\<open>datetime.now().isoformat()\<close>): \<open>now k\<close> is the \<open>k\<close>-th
  reading during the call, and the \<open>k\<close>-th reading is taken when \<open>k\<close> records are already
  in the list.
\<close>

definition consider_pair ::
  "'a arbitrage_bot_scheme \<Rightarrow> (nat \<Rightarrow> string) \<Rightarrow> real pydict \<Rightarrow> trading_pair \<Rightarrow>
   string \<Rightarrow> string \<Rightarrow> opportunity list \<Rightarrow> py_error + opportunity list" where
  "consider_pair b now prices tp buy_ex sell_ex opportunities =
     (if buy_ex \<noteq> sell_ex then
        (case dict_getitem prices buy_ex of Inl e \<Rightarrow> Inl e | Inr buy_p \<Rightarrow>
        (case dict_getitem prices sell_ex of Inl e \<Rightarrow> Inl e | Inr sell_p \<Rightarrow>
           if buy_p > 0 \<and> sell_p > 0 then
             (let pct = ((sell_p - buy_p) / buy_p) * 100 in
              case py_ge pct (threshold b) of
                Inl e \<Rightarrow> Inl e
              | Inr accept \<Rightarrow>
                  if accept then
                    Inr (opportunities @
                      [\<lparr>pair = str_pair tp, buy_exchange = buy_ex, sell_exchange = sell_ex,
                        buy_price = buy_p, sell_price = sell_p, profit_percentage = pct,
                        timestamp = now (length opportunities)\<rparr>])
                  else Inr opportunities)
           else Inr opportunities))
      else Inr opportunities)"

text \<open>\<^verbatim>\<open>for sell_exchange in exchanges\<close>; an exception leaves the loop.\<close>

fun sell_loop ::
  "'a arbitrage_bot_scheme \<Rightarrow> (nat \<Rightarrow> string) \<Rightarrow> real pydict \<Rightarrow> trading_pair \<Rightarrow>
   string \<Rightarrow> string list \<Rightarrow> opportunity list \<Rightarrow> py_error + opportunity list" where
  "sell_loop b now prices tp buy_ex [] opportunities = Inr opportunities"
| "sell_loop b now prices tp buy_ex (sell_ex # rest) opportunities =
     (case consider_pair b now prices tp buy_ex sell_ex opportunities of
        Inl e \<Rightarrow> Inl e
      | Inr opportunities' \<Rightarrow> sell_loop b now prices tp buy_ex rest opportunities')"

text \<open>\<^verbatim>\<open>for buy_exchange in exchanges\<close>, where \<open>exs\<close> is the whole key list.\<close>

fun buy_loop ::
  "'a arbitrage_bot_scheme \<Rightarrow> (nat \<Rightarrow> string) \<Rightarrow> real pydict \<Rightarrow> trading_pair \<Rightarrow>
   string list \<Rightarrow> string list \<Rightarrow> opportunity list \<Rightarrow> py_error + opportunity list" where
  "buy_loop b now prices tp exs [] opportunities = Inr opportunities"
| "buy_loop b now prices tp exs (buy_ex # rest) opportunities =
     (case sell_loop b now prices tp buy_ex exs opportunities of
        Inl e \<Rightarrow> Inl e
      | Inr opportunities' \<Rightarrow> buy_loop b now prices tp exs rest opportunities')"

text \<open>The list as the loops leave it, before it is sorted (lines 177 to 198).\<close>

definition collect_opportunities ::
  "'a arbitrage_bot_scheme \<Rightarrow> (nat \<Rightarrow> string) \<Rightarrow> real pydict \<Rightarrow> trading_pair \<Rightarrow>
   py_error + opportunity list" where
  "collect_opportunities b now prices tp =
     buy_loop b now prices tp (dict_keys prices) (dict_keys prices) []"

definition find_arbitrage_opportunities ::
  "'a arbitrage_bot_scheme \<Rightarrow> (nat \<Rightarrow> string) \<Rightarrow> real pydict \<Rightarrow> trading_pair \<Rightarrow>
   py_error + opportunity list" where
  "find_arbitrage_opportunities b now prices tp =
     (if length prices < 2 then Inr []
      else (case collect_opportunities b now prices tp of
              Inl e \<Rightarrow> Inl e
            | Inr opportunities \<Rightarrow> Inr (py_sorted_reverse profit_percentage opportunities)))"


text \<open>The record of a detected opportunity with its clock reading blanked.\<close>

definition strip_timestamp :: "opportunity \<Rightarrow> opportunity" where
  "strip_timestamp x = x\<lparr>timestamp := []\<rparr>"

text \<open>
  What the loops establish for every record they append, for a numeric threshold \<open>t\<close>:
  the two exchanges differ, both prices are the snapshot's and positive, the percentage
  is the source's expression over them and reaches the threshold.
\<close>

definition sound_opp :: "real \<Rightarrow> real pydict \<Rightarrow> trading_pair \<Rightarrow> opportunity \<Rightarrow> bool" where
  "sound_opp t prices tp x \<longleftrightarrow>
     pair x = str_pair tp \<and>
     buy_exchange x \<noteq> sell_exchange x \<and>
     map_of prices (buy_exchange x) = Some (buy_price x) \<and>
     map_of prices (sell_exchange x) = Some (sell_price x) \<and>
     0 < buy_price x \<and> 0 < sell_price x \<and>
     profit_percentage x = (sell_price x - buy_price x) / buy_price x * 100 \<and>
     t \<le> profit_percentage x"


section \<open>monitorbot.py: configuration and its persistence\<close>

text \<open>
  The bot runs in a world: the file \<^verbatim>\<open>bot_config.json\<close> (absent, or the dict last
  dumped), whether that file can be opened for writing, the wall clock that
  \<^verbatim>\<open>save_config\<close> stamps, the notifications handed to the Slack webhook, and the lines
  the monitoring loop logs.
\<close>

record saved_config =
  saved_pairs :: "trading_pair list"
  saved_threshold :: pyval
  saved_max_loan_amount :: pyval
  saved_monitoring_enabled :: bool
  saved_notification_enabled :: bool
  last_updated :: string

datatype message =
    OpportunityAlert opportunity pyval
  | MonitoringErrorAlert py_error
  | ThresholdUpdatedNote py_float

datatype event =
    Checking string
  | OpportunityLogged opportunity
  | NoOpportunities string
  | NoPrices string
  | LoopError py_error

record world =
  the_bot :: arbitrage_bot
  config_file :: "saved_config option"
  fs_writable :: bool
  wall_clock :: string
  outbox :: "(message \<times> string) list"
  journal :: "event list"

text \<open>
  \<^verbatim>\<open>save_config\<close>: dumps the attributes; an exception while writing is caught and logged,
  which is modelled as the file staying as it was.
\<close>

definition save_config :: "world \<Rightarrow> world" where
  "save_config w =
     (if fs_writable w then
        w\<lparr>config_file := Some
            \<lparr>saved_pairs = pairs (the_bot w),
             saved_threshold = threshold (the_bot w),
             saved_max_loan_amount = max_loan_amount (the_bot w),
             saved_monitoring_enabled = monitoring_enabled (the_bot w),
             saved_notification_enabled = notification_enabled (the_bot w),
             last_updated = wall_clock w\<rparr>\<rparr>
      else w)"

text \<open>
  \<^verbatim>\<open>send_slack_notification\<close>: nothing without a webhook or with notifications off;
  otherwise the payload is posted, and any exception of the post is caught inside.
\<close>

definition send_slack_notification :: "message \<Rightarrow> string \<Rightarrow> world \<Rightarrow> world" where
  "send_slack_notification msg color w =
     (if slack_webhook (the_bot w) = None \<or> slack_webhook (the_bot w) = Some [] \<or>
         \<not> notification_enabled (the_bot w)
      then w
      else w\<lparr>outbox := outbox w @ [(msg, color)]\<rparr>)"

text \<open>
  \<^verbatim>\<open>ArbitrageBot.update_threshold\<close>: assigns, saves, logs. The first component of the
  result is the exception raised, if any; there is none to raise.
\<close>

definition update_threshold :: "pyval \<Rightarrow> world \<Rightarrow> py_error option \<times> world" where
  "update_threshold new_threshold w =
     (None, save_config (w\<lparr>the_bot := (the_bot w)\<lparr>threshold := new_threshold\<rparr>\<rparr>))"

text \<open>\<^verbatim>\<open>s.split(sep)\<close> for a one-character separator; \<open>cur\<close> is the current piece, reversed.\<close>

fun split_from :: "char \<Rightarrow> string \<Rightarrow> string \<Rightarrow> string list" where
  "split_from sep cur [] = [rev cur]"
| "split_from sep cur (c # cs) =
     (if c = sep then rev cur # split_from sep [] cs else split_from sep (c # cur) cs)"

definition py_split :: "string \<Rightarrow> char \<Rightarrow> string list" where
  "py_split s sep = split_from sep [] s"

text \<open>
  \<^verbatim>\<open>TradingPair(*parts)\<close> with \<^verbatim>\<open>__init__(self, base, quote, amount=1.0)\<close>: two or three
  positional arguments are accepted (the third becomes \<open>amount\<close>, a string here), any
  other number is a \<^verbatim>\<open>TypeError\<close>.
\<close>

fun make_trading_pair :: "string list \<Rightarrow> py_error + trading_pair" where
  "make_trading_pair [b, q] = Inr \<lparr>base = b, quote = q, amount = PyNum 1\<rparr>"
| "make_trading_pair [b, q, a] = Inr \<lparr>base = b, quote = q, amount = PyStr a\<rparr>"
| "make_trading_pair _ = Inl TypeError"

text \<open>The list comprehension \<^verbatim>\<open>[TradingPair(*pair.split('/')) for pair in new_pairs]\<close>.\<close>

fun build_pairs :: "string list \<Rightarrow> py_error + trading_pair list" where
  "build_pairs [] = Inr []"
| "build_pairs (s # rest) =
     (case make_trading_pair (py_split s CHR ''/'') of
        Inl e \<Rightarrow> Inl e
      | Inr tp \<Rightarrow> (case build_pairs rest of Inl e \<Rightarrow> Inl e | Inr tps \<Rightarrow> Inr (tp # tps)))"

text \<open>
  \<^verbatim>\<open>ArbitrageBot.update_trading_pairs\<close>: the comprehension is evaluated first; only when
  it succeeds is \<^verbatim>\<open>self.pairs\<close> assigned and the configuration saved.
\<close>

definition update_trading_pairs :: "string list \<Rightarrow> world \<Rightarrow> py_error option \<times> world" where
  "update_trading_pairs new_pairs w =
     (case build_pairs new_pairs of
        Inl e \<Rightarrow> (Some e, w)
      | Inr tps \<Rightarrow> (None, save_config (w\<lparr>the_bot := (the_bot w)\<lparr>pairs := tps\<rparr>\<rparr>)))"


section \<open>slack\_bot.py: the threshold command\<close>

text \<open>
  The replies of \<^verbatim>\<open>SlackBot.update_threshold\<close>, by their text:
  \<open>ThresholdNotPositive\<close> is "Threshold must be greater than 0%",
  \<open>ThresholdTooHigh\<close> is "Threshold too high (>50%). Please use a reasonable value.",
  \<open>ThresholdUpdated t\<close> is "Profit threshold updated to t%".
\<close>

datatype response = ThresholdNotPositive | ThresholdTooHigh | ThresholdUpdated py_float

text \<open>
  The two guards, \<^verbatim>\<open>threshold <= 0\<close> and \<^verbatim>\<open>threshold > 50\<close>, on a float: an infinity
  compares like a number beyond every number, and every comparison with NaN is false.
\<close>

fun float_le :: "py_float \<Rightarrow> real \<Rightarrow> bool" where
  "float_le (Finite x) c = (x \<le> c)"
| "float_le NegInf c = True"
| "float_le PosInf c = False"
| "float_le NaN c = False"

fun float_gt :: "py_float \<Rightarrow> real \<Rightarrow> bool" where
  "float_gt (Finite x) c = (x > c)"
| "float_gt PosInf c = True"
| "float_gt NegInf c = False"
| "float_gt NaN c = False"

text \<open>
  The float as the attribute holds it once \<^verbatim>\<open>bot.update_threshold(threshold)\<close> has
  assigned it. Only a float that passed both guards is assigned, which no infinity does.
\<close>

fun assigned_float :: "py_float \<Rightarrow> pyval option" where
  "assigned_float (Finite x) = Some (PyNum x)"
| "assigned_float NaN = Some PyNaN"
| "assigned_float PosInf = None"
| "assigned_float NegInf = None"

text \<open>
  \<^verbatim>\<open>SlackBot.update_threshold(threshold: float)\<close>, called by the command
  \<^verbatim>\<open>threshold <text>\<close> with \<^verbatim>\<open>float(text)\<close>. The last case is never reached: an infinity
  is caught by one of the guards.
\<close>

definition slack_update_threshold :: "py_float \<Rightarrow> world \<Rightarrow> response \<times> world" where
  "slack_update_threshold thr w =
     (if float_le thr 0 then (ThresholdNotPositive, w)
      else if float_gt thr 50 then (ThresholdTooHigh, w)
      else (case assigned_float thr of
              Some v \<Rightarrow>
                (ThresholdUpdated thr,
                 send_slack_notification (ThresholdUpdatedNote thr) ''good''
                   (snd (update_threshold v w)))
            | None \<Rightarrow> (ThresholdTooHigh, w)))"


section \<open>monitorbot.py: \<^verbatim>\<open>get_prices\<close> and the monitoring loop\<close>

text \<open>
  Modelled from the spec: the exchange adapters (\<^verbatim>\<open>exchanges/*.py\<close>) are not among the
  sources. Section 6 of the specification gives their interface as
  \<^verbatim>\<open>get_price(base, quote) -> price: float | unavailable\<close>, where unavailable may also be
  signalled by failure. So a call to an adapter raises, returns \<^verbatim>\<open>None\<close> or returns a
  float; an adapter that returns anything else (an \<^verbatim>\<open>int\<close>, a \<^verbatim>\<open>Decimal\<close>, a string) is
  outside this interface and outside the model. The adapters are a parameter, a function
  of the exchange name and the pair. \<open>exchange_api_names\<close> are the keys of
  \<^verbatim>\<open>self.exchange_apis\<close>.
\<close>

datatype api_result = ApiRaises py_error | ApiNone | ApiFloat real

type_synonym exchange_apis = "string \<Rightarrow> string \<Rightarrow> string \<Rightarrow> api_result"

definition exchange_api_names :: "string list" where
  "exchange_api_names =
     [''uniswap'', ''sushiswap'', ''pancakeswap'', ''quickswap'', ''traderjoe'',
      ''pangolin'', ''biswap'', ''apeswap'', ''curve'', ''balancer'']"

text \<open>
  The loop of \<^verbatim>\<open>get_prices\<close>. The \<^verbatim>\<open>try\<close> is inside the loop, around one exchange: a
  raising adapter is logged and skipped. \<^verbatim>\<open>if price and price > 0\<close> lets a positive
  float through; \<^verbatim>\<open>None\<close> and zero are falsy.
\<close>

fun get_prices_loop ::
  "exchange_apis \<Rightarrow> trading_pair \<Rightarrow> string list \<Rightarrow> real pydict \<Rightarrow> real pydict" where
  "get_prices_loop api tp [] prices = prices"
| "get_prices_loop api tp (exchange_name # rest) prices =
     get_prices_loop api tp rest
       (if exchange_name \<in> set exchange_api_names then
          (case api exchange_name (base tp) (quote tp) of
             ApiRaises e \<Rightarrow> prices
           | ApiNone \<Rightarrow> prices
           | ApiFloat price \<Rightarrow>
               if price \<noteq> 0 \<and> price > 0 then dict_setitem prices exchange_name price
               else prices)
        else prices)"

definition get_prices ::
  "exchange_apis \<Rightarrow> 'a arbitrage_bot_scheme \<Rightarrow> trading_pair \<Rightarrow> real pydict" where
  "get_prices api b tp = get_prices_loop api tp (exchanges b) []"

text \<open>
  The body of \<^verbatim>\<open>for pair in self.pairs\<close> (lines 209 to 229). No \<^verbatim>\<open>try\<close> surrounds it:
  an exception of the detector leaves the body with the world as it is then.
\<close>

definition check_pair ::
  "exchange_apis \<Rightarrow> (nat \<Rightarrow> string) \<Rightarrow> trading_pair \<Rightarrow> world \<Rightarrow> py_error option \<times> world" where
  "check_pair api now tp w =
     (let w1 = w\<lparr>journal := journal w @ [Checking (str_pair tp)]\<rparr>;
          prices = get_prices api (the_bot w1) tp
      in if prices \<noteq> [] then
           (case find_arbitrage_opportunities (the_bot w1) now prices tp of
              Inl e \<Rightarrow> (Some e, w1)
            | Inr opportunities \<Rightarrow>
                (case opportunities of
                   [] \<Rightarrow> (None, w1\<lparr>journal := journal w1 @ [NoOpportunities (str_pair tp)]\<rparr>)
                 | best_opportunity # _ \<Rightarrow>
                     (None,
                      send_slack_notification
                        (OpportunityAlert best_opportunity (max_loan_amount (the_bot w1))) ''good''
                        (w1\<lparr>journal := journal w1 @ [OpportunityLogged best_opportunity]\<rparr>))))
         else (None, w1\<lparr>journal := journal w1 @ [NoPrices (str_pair tp)]\<rparr>))"

text \<open>
  \<^verbatim>\<open>for pair in self.pairs\<close>: the first exception ends the loop. \<open>now i\<close> is the clock as
  the \<open>i\<close>-th pair of the cycle reads it.
\<close>

fun scan_pairs ::
  "exchange_apis \<Rightarrow> (nat \<Rightarrow> nat \<Rightarrow> string) \<Rightarrow> nat \<Rightarrow> trading_pair list \<Rightarrow> world \<Rightarrow>
   py_error option \<times> world" where
  "scan_pairs api now i [] w = (None, w)"
| "scan_pairs api now i (tp # rest) w =
     (case check_pair api (now i) tp w of
        (Some e, w') \<Rightarrow> (Some e, w')
      | (None, w') \<Rightarrow> scan_pairs api now (Suc i) rest w')"

text \<open>
  One pass of the body of \<^verbatim>\<open>while self.monitoring_enabled\<close>: the \<^verbatim>\<open>try\<close> encloses the
  whole \<^verbatim>\<open>for\<close> loop and the sleep of 60 seconds; its handler logs, notifies and sleeps
  30 seconds. The result is the world after the pass and the seconds slept.
\<close>

definition monitor_cycle ::
  "exchange_apis \<Rightarrow> (nat \<Rightarrow> nat \<Rightarrow> string) \<Rightarrow> world \<Rightarrow> world \<times> nat" where
  "monitor_cycle api now w =
     (case scan_pairs api now 0 (pairs (the_bot w)) w of
        (None, w') \<Rightarrow> (w', 60)
      | (Some e, w') \<Rightarrow>
          (send_slack_notification (MonitoringErrorAlert e) ''danger''
             (w'\<lparr>journal := journal w' @ [LoopError e]\<rparr>), 30))"

text \<open>The pairs whose check was started, and those whose check ran to its outcome.\<close>

fun checked_pairs :: "event list \<Rightarrow> string list" where
  "checked_pairs [] = []"
| "checked_pairs (Checking p # es) = p # checked_pairs es"
| "checked_pairs (_ # es) = checked_pairs es"

fun completed_pairs :: "event list \<Rightarrow> string list" where
  "completed_pairs [] = []"
| "completed_pairs (OpportunityLogged x # es) = pair x # completed_pairs es"
| "completed_pairs (NoOpportunities p # es) = p # completed_pairs es"
| "completed_pairs (NoPrices p # es) = p # completed_pairs es"
| "completed_pairs (_ # es) = completed_pairs es"


section \<open>flashloan\_bot.py: loan sizing, gas cost and net profit\<close>

text \<open>
  \<^verbatim>\<open>ContractIntegration\<close>, as far as the gas price goes: \<open>web3_gas_price\<close> is \<open>None\<close> while
  \<^verbatim>\<open>self.web3\<close> is still \<^verbatim>\<open>None\<close>, and otherwise what reading \<^verbatim>\<open>self.web3.eth.gas_price\<close>
  does. \<^verbatim>\<open>get_gas_price\<close> logs and re-raises.
\<close>

record contract_integration_obj =
  network :: string
  web3_gas_price :: "(py_error + int) option"

definition get_gas_price :: "contract_integration_obj \<Rightarrow> py_error + int" where
  "get_gas_price ci = (case web3_gas_price ci of None \<Rightarrow> Inl AttributeError | Some r \<Rightarrow> r)"

record flashloan_bot = arbitrage_bot +
  contract_integration :: "contract_integration_obj option"
  flashloan_enabled :: bool
  contract_address :: "string option"
  min_profit_threshold :: real

text \<open>
  \<^verbatim>\<open>estimate_gas_cost\<close>. The whole computation is inside \<^verbatim>\<open>try\<close>; the handler returns
  \<^verbatim>\<open>Decimal("0.01")\<close>. \<^verbatim>\<open>Web3.fromWei(_, 'ether')\<close> belongs to a library and is the
  parameter \<open>fromWei\<close>, which may raise as well.
\<close>

definition gas_fallback :: real where
  "gas_fallback = 1 / 100"

definition estimate_gas_cost ::
  "(int \<Rightarrow> py_error + real) \<Rightarrow> flashloan_bot \<Rightarrow> py_error + real" where
  "estimate_gas_cost fromWei fb =
     (case (case contract_integration fb of
              None \<Rightarrow> Inl AttributeError
            | Some ci \<Rightarrow>
                (case get_gas_price ci of
                   Inl e \<Rightarrow> Inl e
                 | Inr gas_price \<Rightarrow> fromWei (gas_price * 500000))) of
        Inl e \<Rightarrow> Inr gas_fallback
      | Inr gas_cost_eth \<Rightarrow> Inr gas_cost_eth)"

text \<open>
  The opportunity handed to the flashloan code is a dict; of it the code reads the keys
  \<^verbatim>\<open>'amount'\<close>, \<^verbatim>\<open>'profit_rate'\<close> and \<^verbatim>\<open>'profit'\<close> through \<^verbatim>\<open>Decimal(str(_))\<close>, so the
  model keeps its numeric entries.

  \<^verbatim>\<open>calculate_optimal_loan_amount\<close>, awaited: \<^verbatim>\<open>min(base_amount * 10, self.max_loan_amount)\<close>.
  Comparing a \<^verbatim>\<open>Decimal\<close> with a string or \<^verbatim>\<open>None\<close> is a \<^verbatim>\<open>TypeError\<close>; ordering it
  against NaN signals \<^verbatim>\<open>decimal.InvalidOperation\<close>.
\<close>

definition calculate_optimal_loan_amount ::
  "flashloan_bot \<Rightarrow> real pydict \<Rightarrow> py_error + real" where
  "calculate_optimal_loan_amount fb opp =
     (let base_amount = dict_get opp ''amount'' 100;
          profit_rate = dict_get opp ''profit_rate'' (1 / 100)
      in case max_loan_amount fb of
           PyNum m \<Rightarrow> Inr (min (base_amount * 10) m)
         | PyNaN \<Rightarrow> Inl InvalidOperation
         | PyStr s \<Rightarrow> Inl TypeError
         | PyNone \<Rightarrow> Inl TypeError)"

text \<open>
  The objects that can stand on the left of \<^verbatim>\<open>loan_amount * flashloan_fee_rate\<close>, by
  kind, and the product with the \<^verbatim>\<open>Decimal\<close> on the right: a \<^verbatim>\<open>Decimal\<close> or an \<^verbatim>\<open>int\<close>
  multiplies; a \<^verbatim>\<open>float\<close> and a coroutine object are unsupported operands.
\<close>

datatype pyobj = DecimalObj real | IntObj int | FloatObj real | CoroutineObj

definition mul_decimal :: "pyobj \<Rightarrow> real \<Rightarrow> py_error + real" where
  "mul_decimal x d =
     (case x of
        DecimalObj a \<Rightarrow> Inr (a * d)
      | IntObj n \<Rightarrow> Inr (real_of_int n * d)
      | FloatObj a \<Rightarrow> Inl TypeError
      | CoroutineObj \<Rightarrow> Inl TypeError)"

text \<open>
  \<^verbatim>\<open>calculate_flashloan_profit\<close>. Line 80 is
  \<^verbatim>\<open>loan_amount = self.calculate_optimal_loan_amount(opportunity)\<close>, and
  \<^verbatim>\<open>calculate_optimal_loan_amount\<close> is declared \<^verbatim>\<open>async def\<close>: without \<^verbatim>\<open>await\<close> the call
  runs none of its body and yields a coroutine object, which line 81 multiplies by the
  fee rate before the gas cost is asked for.
\<close>

definition calculate_flashloan_profit ::
  "(int \<Rightarrow> py_error + real) \<Rightarrow> flashloan_bot \<Rightarrow> real pydict \<Rightarrow> py_error + real" where
  "calculate_flashloan_profit fromWei fb opp =
     (let profit = dict_get opp ''profit'' 0;
          flashloan_fee_rate = 9 / 10000;
          loan_amount = CoroutineObj
      in case mul_decimal loan_amount flashloan_fee_rate of
           Inl e \<Rightarrow> Inl e
         | Inr flashloan_fee \<Rightarrow>
             (case estimate_gas_cost fromWei fb of
                Inl e \<Rightarrow> Inl e
              | Inr gas_cost \<Rightarrow> Inr (profit - flashloan_fee - gas_cost)))"


section \<open>Concrete inputs\<close>

text \<open>Clock readings, pairs, a bot and its world, as the examples below use them.\<close>

definition clock_a :: "nat \<Rightarrow> string" where
  "clock_a k = ''2024-01-01T00:00:00''"

definition clock_b :: "nat \<Rightarrow> string" where
  "clock_b k = ''2024-01-01T00:01:00''"

definition cycle_clock :: "nat \<Rightarrow> nat \<Rightarrow> string" where
  "cycle_clock i k = ''2024-01-01T00:00:00''"

definition weth_usdc :: trading_pair where
  "weth_usdc = \<lparr>base = ''WETH'', quote = ''USDC'', amount = PyNum 1\<rparr>"

definition wbtc_usdc :: trading_pair where
  "wbtc_usdc = \<lparr>base = ''WBTC'', quote = ''USDC'', amount = PyNum 1\<rparr>"

definition link_usdc :: trading_pair where
  "link_usdc = \<lparr>base = ''LINK'', quote = ''USDC'', amount = PyNum 1\<rparr>"

definition bot_a :: arbitrage_bot where
  "bot_a = \<lparr>exchanges = [''uniswap'', ''sushiswap''],
            pairs = [weth_usdc, wbtc_usdc, link_usdc],
            threshold = PyNum 1, max_loan_amount = PyNum 1000,
            monitoring_enabled = True, notification_enabled = True,
            slack_webhook = None\<rparr>"

definition world_a :: world where
  "world_a = \<lparr>the_bot = bot_a, config_file = None, fs_writable = True,
              wall_clock = ''2024-01-01T00:00:00'', outbox = [], journal = []\<rparr>"

text \<open>
  The same world after \<^verbatim>\<open>load_config\<close> has read \<^verbatim>\<open>"threshold": null\<close> from the
  configuration file: \<^verbatim>\<open>config.get('threshold', self.threshold)\<close> is then \<^verbatim>\<open>None\<close>.
\<close>

definition world_none :: world where
  "world_none = world_a\<lparr>the_bot := bot_a\<lparr>threshold := PyNone\<rparr>\<rparr>"

text \<open>The same, with the pairs in the order LINK, WETH, WBTC.\<close>

definition world_none_link_first :: world where
  "world_none_link_first =
     world_a\<lparr>the_bot := bot_a\<lparr>threshold := PyNone,
                                  pairs := [link_usdc, weth_usdc, wbtc_usdc]\<rparr>\<rparr>"

text \<open>
  The world of \<open>world_none_link_first\<close> once LINK has been checked, and once the check of
  WETH has been started.
\<close>

definition after_link :: world where
  "after_link =
     world_none_link_first\<lparr>journal := [Checking ''LINK/USDC'', NoOpportunities ''LINK/USDC'']\<rparr>"

definition after_weth :: world where
  "after_weth = world_none_link_first\<lparr>journal :=
     [Checking ''LINK/USDC'', NoOpportunities ''LINK/USDC'', Checking ''WETH/USDC'']\<rparr>"

text \<open>
  Adapters for which every lookup of WBTC raises, WETH is quoted at 100 and 102, and every
  other base at 7 everywhere.
\<close>

definition api_a :: exchange_apis where
  "api_a ex b q =
     (if b = ''WBTC'' then ApiRaises ConnectionError
      else if b = ''WETH'' then
        (if ex = ''uniswap'' then ApiFloat 100 else ApiFloat 102)
      else ApiFloat 7)"

text \<open>
  Adapters for which WETH is quoted at 100 and 102 and every other base has one quote
  only (the other adapter returns \<^verbatim>\<open>None\<close>).
\<close>

definition api_b :: exchange_apis where
  "api_b ex b q =
     (if b = ''WETH'' then
        (if ex = ''uniswap'' then ApiFloat 100 else ApiFloat 102)
      else if ex = ''uniswap'' then ApiFloat 7 else ApiNone)"

definition snapshot_a :: "real pydict" where
  "snapshot_a = [(''X'', 100), (''Y'', 102)]"

definition snapshot_ties :: "real pydict" where
  "snapshot_ties = [(''X'', 100), (''Y'', 102), (''Z'', 100), (''W'', 104)]"

definition opp_a :: "string \<Rightarrow> string \<Rightarrow> real \<Rightarrow> real \<Rightarrow> real \<Rightarrow> string \<Rightarrow> opportunity" where
  "opp_a buy_ex sell_ex buy_p sell_p pct ts =
     \<lparr>pair = ''WETH/USDC'', buy_exchange = buy_ex, sell_exchange = sell_ex,
      buy_price = buy_p, sell_price = sell_p, profit_percentage = pct, timestamp = ts\<rparr>"

text \<open>Wei to ether without range check, and a flashloan bot whose gas price is 4000 gwei.\<close>

definition wei_to_ether :: "int \<Rightarrow> py_error + real" where
  "wei_to_ether n = Inr (real_of_int n / 10 ^ 18)"

definition fbot_a :: flashloan_bot where
  "fbot_a = \<lparr>exchanges = [''uniswap'', ''sushiswap''], pairs = [weth_usdc],
             threshold = PyNum 1, max_loan_amount = PyNum 1000,
             monitoring_enabled = True, notification_enabled = True, slack_webhook = None,
             contract_integration =
               Some \<lparr>network = ''polygon'', web3_gas_price = Some (Inr 4000000000000)\<rparr>,
             flashloan_enabled = True, contract_address = Some ''0xC0FFEE'',
             min_profit_threshold = 1 / 100\<rparr>"

definition fbot_offline :: flashloan_bot where
  "fbot_offline = fbot_a\<lparr>contract_integration := None\<rparr>"


section \<open>The detector: what every returned record satisfies\<close>

lemma dict_getitem_key:
  "k \<in> set (dict_keys d) \<Longrightarrow> \<exists>v. dict_getitem d k = Inr v \<and> map_of d k = Some v"
  by (induction d) (auto simp: dict_keys_def dict_getitem_def)

lemma consider_pair_sound:
  assumes "threshold b = PyNum t" "buy_ex \<in> set (dict_keys prices)" "sell_ex \<in> set (dict_keys prices)"
    and "list_all (sound_opp t prices tp) xs"
  shows "\<exists>ys. consider_pair b now prices tp buy_ex sell_ex xs = Inr ys \<and> list_all (sound_opp t prices tp) ys"
proof -
  from dict_getitem_key[OF assms(2)] obtain bp where bp: "dict_getitem prices buy_ex = Inr bp" "map_of prices buy_ex = Some bp" by blast
  from dict_getitem_key[OF assms(3)] obtain sp where sp: "dict_getitem prices sell_ex = Inr sp" "map_of prices sell_ex = Some sp" by blast
  show ?thesis using assms(1,4) bp sp
    by (simp add: consider_pair_def py_ge_def sound_opp_def Let_def)
qed

lemma sell_loop_sound:
  assumes "threshold b = PyNum t" "buy_ex \<in> set (dict_keys prices)" "set rest \<subseteq> set (dict_keys prices)"
    and "list_all (sound_opp t prices tp) xs"
  shows "\<exists>ys. sell_loop b now prices tp buy_ex rest xs = Inr ys \<and> list_all (sound_opp t prices tp) ys"
  using assms(3,4)
proof (induction rest arbitrary: xs)
  case Nil
  then show ?case by simp
next
  case (Cons s rest)
  from Cons.prems have s: "s \<in> set (dict_keys prices)" and r: "set rest \<subseteq> set (dict_keys prices)" by auto
  from consider_pair_sound[OF assms(1,2) s Cons.prems(2)]
  obtain ys where ys: "consider_pair b now prices tp buy_ex s xs = Inr ys" "list_all (sound_opp t prices tp) ys" by blast
  from Cons.IH[OF r ys(2)] ys(1) show ?case by simp
qed

lemma buy_loop_sound:
  assumes "threshold b = PyNum t" "set exs \<subseteq> set (dict_keys prices)" "set rest \<subseteq> set (dict_keys prices)"
    and "list_all (sound_opp t prices tp) xs"
  shows "\<exists>ys. buy_loop b now prices tp exs rest xs = Inr ys \<and> list_all (sound_opp t prices tp) ys"
  using assms(3,4)
proof (induction rest arbitrary: xs)
  case Nil
  then show ?case by simp
next
  case (Cons s rest)
  from Cons.prems have s: "s \<in> set (dict_keys prices)" and r: "set rest \<subseteq> set (dict_keys prices)" by auto
  from sell_loop_sound[OF assms(1) s assms(2) Cons.prems(2)]
  obtain ys where ys: "sell_loop b now prices tp s exs xs = Inr ys" "list_all (sound_opp t prices tp) ys" by blast
  from Cons.IH[OF r ys(2)] ys(1) show ?case by simp
qed

lemma collect_sound:
  assumes "threshold b = PyNum t"
  shows "\<exists>ys. collect_opportunities b now prices tp = Inr ys \<and> list_all (sound_opp t prices tp) ys"
  unfolding collect_opportunities_def
  using buy_loop_sound[OF assms, of "dict_keys prices" prices "dict_keys prices" tp "[]"] by simp

lemma set_py_sorted_reverse: "set (py_sorted_reverse f xs) = set xs"
  by (simp add: py_sorted_reverse_def)

lemma find_sound_all:
  assumes "threshold b = PyNum t"
  shows "\<exists>opps. find_arbitrage_opportunities b now prices tp = Inr opps \<and> list_all (sound_opp t prices tp) opps"
proof -
  from collect_sound[OF assms, of now prices tp] obtain ys
    where ys: "collect_opportunities b now prices tp = Inr ys" "list_all (sound_opp t prices tp) ys"
    by blast
  show ?thesis
    using ys by (simp add: find_arbitrage_opportunities_def list_all_iff set_py_sorted_reverse)
qed

text \<open>
  C2. For every snapshot, pair and numeric threshold \<open>t\<close>, the detector returns a list, and
  every record of it has two different exchanges, carries the snapshot's prices of these
  two exchanges, has \<open>profit_percentage = (sell_price - buy_price) / buy_price * 100\<close>, and
  a \<open>profit_percentage\<close> of at least \<open>t\<close>. The guard \<^verbatim>\<open>buy_price > 0 and sell_price > 0\<close> of
  the source makes this hold for any snapshot, not only for strictly positive ones.
\<close>

theorem detector_sound: "threshold b = PyNum t \<Longrightarrow>
  \<exists>opps. find_arbitrage_opportunities b now prices tp = Inr opps \<and>
    (\<forall>x \<in> set opps. buy_exchange x \<noteq> sell_exchange x \<and>
     map_of prices (buy_exchange x) = Some (buy_price x) \<and>
     map_of prices (sell_exchange x) = Some (sell_price x) \<and>
     profit_percentage x = (sell_price x - buy_price x) / buy_price x * 100 \<and>
     t \<le> profit_percentage x)"
proof -
  assume "threshold b = PyNum t"
  from find_sound_all[OF this, of now prices tp] obtain opps
    where o: "find_arbitrage_opportunities b now prices tp = Inr opps" "list_all (sound_opp t prices tp) opps"
    by blast
  from o(2) have "\<forall>x \<in> set opps. sound_opp t prices tp x" by (simp add: list_all_iff)
  with o(1) show ?thesis unfolding sound_opp_def by blast
qed

lemma snapshot_a_result:
  "find_arbitrage_opportunities bot_a clock_a snapshot_a weth_usdc
     = Inr [opp_a ''X'' ''Y'' 100 102 2 ''2024-01-01T00:00:00'']"
  by (simp add: find_arbitrage_opportunities_def collect_opportunities_def dict_keys_def
      consider_pair_def dict_getitem_def py_ge_def py_sorted_reverse_def str_pair_def
      snapshot_a_def bot_a_def weth_usdc_def clock_a_def opp_a_def)

text \<open>
  The theorem at the snapshot \<open>X: 100, Y: 102\<close> with threshold 1: one record, buying on X
  and selling on Y at 2 percent.
\<close>

theorem detector_sound_witness:
  "threshold bot_a = PyNum 1
   \<and> find_arbitrage_opportunities bot_a clock_a snapshot_a weth_usdc
       = Inr [opp_a ''X'' ''Y'' 100 102 2 ''2024-01-01T00:00:00'']
   \<and> ''X'' \<noteq> ''Y''
   \<and> map_of snapshot_a ''X'' = Some 100 \<and> map_of snapshot_a ''Y'' = Some 102
   \<and> (2::real) = (102 - 100) / 100 * 100 \<and> (1::real) \<le> 2"
  using detector_sound [of bot_a 1 clock_a snapshot_a weth_usdc] snapshot_a_result
  by (simp add: bot_a_def snapshot_a_def)

section \<open>The detector: order of the result\<close>

lemma py_sorted_reverse_descending:
  "sorted_wrt (\<lambda>x y. f y \<le> f x) (py_sorted_reverse f xs)"
proof -
  have "sorted (map f (sort_key f (rev xs)))" by (rule sorted_sort_key)
  then have "sorted_wrt (\<lambda>x y. f x \<le> f y) (sort_key f (rev xs))"
    by (simp add: sorted_map)
  then show ?thesis
    by (simp add: py_sorted_reverse_def sorted_wrt_rev)
qed

lemma py_sorted_reverse_stable:
  "filter (\<lambda>y. f y = k) (py_sorted_reverse f xs) = filter (\<lambda>y. f y = k) xs"
proof -
  have "filter (\<lambda>y. f y = k) (py_sorted_reverse f xs) = rev (filter (\<lambda>y. f y = k) (sort_key f (rev xs)))"
    by (simp add: py_sorted_reverse_def rev_filter)
  also have "\<dots> = rev (filter (\<lambda>y. f y = k) (rev xs))"
    by (simp only: sort_key_stable)
  also have "\<dots> = filter (\<lambda>y. f y = k) xs"
    by (simp add: rev_filter)
  finally show ?thesis .
qed

lemma collect_short: "length prices < 2 \<Longrightarrow> collect_opportunities b now prices tp = Inr []"
proof (cases prices)
  case Nil
  then show ?thesis by (simp add: collect_opportunities_def dict_keys_def)
next
  case (Cons p ps)
  assume "length prices < 2"
  with Cons have "ps = []" by simp
  with Cons show ?thesis
    by (simp add: collect_opportunities_def dict_keys_def consider_pair_def)
qed

text \<open>
  C6. For every snapshot, pair and numeric threshold, the returned list is in descending
  order of \<open>profit_percentage\<close>, and for every percentage \<open>p\<close> the records with that
  percentage appear in the result in the order in which the two loops over the exchanges
  generated them: the sort is stable.
\<close>

theorem detector_sorted_stable: "threshold b = PyNum t \<Longrightarrow>
  \<exists>generated opps.
    collect_opportunities b now prices tp = Inr generated \<and>
    find_arbitrage_opportunities b now prices tp = Inr opps \<and>
    sorted_wrt (\<lambda>x y. profit_percentage y \<le> profit_percentage x) opps \<and>
    (\<forall>p. filter (\<lambda>x. profit_percentage x = p) opps = filter (\<lambda>x. profit_percentage x = p) generated)"
proof -
  assume num: "threshold b = PyNum t"
  from collect_sound[OF num, of now prices tp] obtain ys
    where ys: "collect_opportunities b now prices tp = Inr ys" by blast
  show ?thesis
  proof (cases "length prices < 2")
    case True
    with collect_short[OF True, of b now tp] show ?thesis
      by (simp add: find_arbitrage_opportunities_def)
  next
    case False
    then have res: "find_arbitrage_opportunities b now prices tp = Inr (py_sorted_reverse profit_percentage ys)"
      by (simp add: find_arbitrage_opportunities_def ys(1))
    show ?thesis unfolding res ys
      using py_sorted_reverse_descending[of profit_percentage ys] py_sorted_reverse_stable[of profit_percentage _ ys]
      by simp
  qed
qed

lemma snapshot_ties_collect:
  "collect_opportunities bot_a clock_a snapshot_ties weth_usdc
     = Inr [opp_a ''X'' ''Y'' 100 102 2 ''2024-01-01T00:00:00'',
            opp_a ''X'' ''W'' 100 104 4 ''2024-01-01T00:00:00'',
            opp_a ''Y'' ''W'' 102 104 (100 / 51) ''2024-01-01T00:00:00'',
            opp_a ''Z'' ''Y'' 100 102 2 ''2024-01-01T00:00:00'',
            opp_a ''Z'' ''W'' 100 104 4 ''2024-01-01T00:00:00'']"
  by (simp add: collect_opportunities_def dict_keys_def
      consider_pair_def dict_getitem_def py_ge_def str_pair_def
      snapshot_ties_def bot_a_def weth_usdc_def clock_a_def opp_a_def)

lemma snapshot_ties_result:
  "find_arbitrage_opportunities bot_a clock_a snapshot_ties weth_usdc
     = Inr [opp_a ''X'' ''W'' 100 104 4 ''2024-01-01T00:00:00'',
            opp_a ''Z'' ''W'' 100 104 4 ''2024-01-01T00:00:00'',
            opp_a ''X'' ''Y'' 100 102 2 ''2024-01-01T00:00:00'',
            opp_a ''Z'' ''Y'' 100 102 2 ''2024-01-01T00:00:00'',
            opp_a ''Y'' ''W'' 102 104 (100 / 51) ''2024-01-01T00:00:00'']"
  by (simp add: find_arbitrage_opportunities_def snapshot_ties_collect py_sorted_reverse_def)
     (simp add: snapshot_ties_def opp_a_def)

text \<open>
  The theorem at a snapshot with ties: the loops generate X-Y (2), X-W (4), Y-W (100/51),
  Z-Y (2), Z-W (4); the result has the two records at 4 first, X before Z, then the two
  at 2, X before Z, then Y-W.
\<close>

theorem detector_sorted_stable_witness:
  "threshold bot_a = PyNum 1
   \<and> collect_opportunities bot_a clock_a snapshot_ties weth_usdc
     = Inr [opp_a ''X'' ''Y'' 100 102 2 ''2024-01-01T00:00:00'',
            opp_a ''X'' ''W'' 100 104 4 ''2024-01-01T00:00:00'',
            opp_a ''Y'' ''W'' 102 104 (100 / 51) ''2024-01-01T00:00:00'',
            opp_a ''Z'' ''Y'' 100 102 2 ''2024-01-01T00:00:00'',
            opp_a ''Z'' ''W'' 100 104 4 ''2024-01-01T00:00:00'']
   \<and> find_arbitrage_opportunities bot_a clock_a snapshot_ties weth_usdc
     = Inr [opp_a ''X'' ''W'' 100 104 4 ''2024-01-01T00:00:00'',
            opp_a ''Z'' ''W'' 100 104 4 ''2024-01-01T00:00:00'',
            opp_a ''X'' ''Y'' 100 102 2 ''2024-01-01T00:00:00'',
            opp_a ''Z'' ''Y'' 100 102 2 ''2024-01-01T00:00:00'',
            opp_a ''Y'' ''W'' 102 104 (100 / 51) ''2024-01-01T00:00:00'']"
  using detector_sorted_stable [of bot_a 1 clock_a snapshot_ties weth_usdc]
    snapshot_ties_collect snapshot_ties_result
  by (simp add: bot_a_def)

section \<open>The detector: dependence on the clock\<close>

lemma map_insort_key:
  assumes "\<And>x. g (h x) = f x"
  shows "map h (insort_key f x xs) = insort_key g (h x) (map h xs)"
  by (induction xs) (simp_all add: assms)

lemma map_sort_key:
  assumes "\<And>x. g (h x) = f x"
  shows "map h (sort_key f xs) = sort_key g (map h xs)"
  by (induction xs) (simp_all add: map_insort_key[where g = g and f = f, OF assms])

lemma map_py_sorted_reverse:
  assumes "\<And>x. g (h x) = f x"
  shows "map h (py_sorted_reverse f xs) = py_sorted_reverse g (map h xs)"
proof -
  have "map h (py_sorted_reverse f xs) = rev (map h (sort_key f (rev xs)))"
    by (simp add: py_sorted_reverse_def rev_map)
  also have "\<dots> = rev (sort_key g (map h (rev xs)))"
    by (simp only: map_sort_key[where g = g and f = f, OF assms])
  also have "\<dots> = py_sorted_reverse g (map h xs)"
    by (simp add: py_sorted_reverse_def rev_map)
  finally show ?thesis .
qed

lemma consider_pair_clock:
  assumes "map strip_timestamp xs1 = map strip_timestamp xs2"
  shows "map_sum (\<lambda>e. e) (map strip_timestamp) (consider_pair b now1 prices tp buy_ex sell_ex xs1)
       = map_sum (\<lambda>e. e) (map strip_timestamp) (consider_pair b now2 prices tp buy_ex sell_ex xs2)"
  using assms
  by (simp add: consider_pair_def Let_def strip_timestamp_def split: sum.splits)

lemma sell_loop_clock:
  assumes "map strip_timestamp xs1 = map strip_timestamp xs2"
  shows "map_sum (\<lambda>e. e) (map strip_timestamp) (sell_loop b now1 prices tp buy_ex rest xs1)
       = map_sum (\<lambda>e. e) (map strip_timestamp) (sell_loop b now2 prices tp buy_ex rest xs2)"
  using assms
proof (induction rest arbitrary: xs1 xs2)
  case Nil
  then show ?case by simp
next
  case (Cons s rest)
  from consider_pair_clock[OF Cons.prems, of b now1 prices tp buy_ex s now2]
  show ?case
    by (cases "consider_pair b now1 prices tp buy_ex s xs1";
        cases "consider_pair b now2 prices tp buy_ex s xs2") (simp_all add: Cons.IH)
qed

lemma buy_loop_clock:
  assumes "map strip_timestamp xs1 = map strip_timestamp xs2"
  shows "map_sum (\<lambda>e. e) (map strip_timestamp) (buy_loop b now1 prices tp exs rest xs1)
       = map_sum (\<lambda>e. e) (map strip_timestamp) (buy_loop b now2 prices tp exs rest xs2)"
  using assms
proof (induction rest arbitrary: xs1 xs2)
  case Nil
  then show ?case by simp
next
  case (Cons s rest)
  from sell_loop_clock[OF Cons.prems, of b now1 prices tp s exs now2]
  show ?case
    by (cases "sell_loop b now1 prices tp s exs xs1";
        cases "sell_loop b now2 prices tp s exs xs2") (simp_all add: Cons.IH)
qed

lemma snapshot_a_result_b:
  "find_arbitrage_opportunities bot_a clock_b snapshot_a weth_usdc
     = Inr [opp_a ''X'' ''Y'' 100 102 2 ''2024-01-01T00:01:00'']"
  by (simp add: find_arbitrage_opportunities_def collect_opportunities_def dict_keys_def
      consider_pair_def dict_getitem_def py_ge_def py_sorted_reverse_def str_pair_def
      snapshot_a_def bot_a_def weth_usdc_def clock_b_def opp_a_def)

text \<open>
  C8, as stated, fails: every record carries \<^verbatim>\<open>datetime.now().isoformat()\<close>, so two
  invocations on the same snapshot, pair and threshold return different lists as soon as
  the clock has moved and one record is returned.
\<close>

theorem detector_clock_counterexample:
  "find_arbitrage_opportunities bot_a clock_a snapshot_a weth_usdc
   \<noteq> find_arbitrage_opportunities bot_a clock_b snapshot_a weth_usdc"
  by (simp add: snapshot_a_result snapshot_a_result_b opp_a_def)

text \<open>
  C8, amended. The detector assigns no attribute of the bot and changes none of its
  arguments (its model returns the list only), reads the clock, and is a function of the
  bot's threshold, the snapshot, the pair and the clock readings. Two invocations on the
  same threshold, snapshot and pair agree on the outcome, whatever the clocks: the same
  exception, or lists that are equal once the \<open>timestamp\<close> of every record is blanked.
\<close>

theorem detector_deterministic_up_to_clock:
  "map_sum (\<lambda>e. e) (map strip_timestamp) (find_arbitrage_opportunities b now1 prices tp)
   = map_sum (\<lambda>e. e) (map strip_timestamp) (find_arbitrage_opportunities b now2 prices tp)"
proof -
  have pp: "\<And>x. profit_percentage (strip_timestamp x) = profit_percentage x"
    by (simp add: strip_timestamp_def)
  have c: "map_sum (\<lambda>e. e) (map strip_timestamp) (collect_opportunities b now1 prices tp)
         = map_sum (\<lambda>e. e) (map strip_timestamp) (collect_opportunities b now2 prices tp)"
    unfolding collect_opportunities_def by (rule buy_loop_clock) simp
  show ?thesis
    using c
    by (cases "collect_opportunities b now1 prices tp"; cases "collect_opportunities b now2 prices tp")
       (simp_all add: find_arbitrage_opportunities_def
          map_py_sorted_reverse[where g = profit_percentage and f = profit_percentage, OF pp])
qed

section \<open>The monitoring loop\<close>

lemma checked_pairs_append: "checked_pairs (xs @ ys) = checked_pairs xs @ checked_pairs ys"
  by (induction xs rule: checked_pairs.induct) simp_all

lemma completed_pairs_append: "completed_pairs (xs @ ys) = completed_pairs xs @ completed_pairs ys"
  by (induction xs rule: completed_pairs.induct) simp_all

lemma send_slack_notification_keeps:
  "the_bot (send_slack_notification msg color w) = the_bot w"
  "journal (send_slack_notification msg color w) = journal w"
  by (simp_all add: send_slack_notification_def)

lemma check_pair_completes:
  assumes "threshold (the_bot w) = PyNum t"
  shows "\<exists>w'. check_pair api now tp w = (None, w') \<and> the_bot w' = the_bot w \<and>
           checked_pairs (journal w') = checked_pairs (journal w) @ [str_pair tp] \<and>
           completed_pairs (journal w') = completed_pairs (journal w) @ [str_pair tp]"
proof -
  let ?prices = "get_prices api (the_bot w) tp"
  from find_sound_all[OF assms, of now ?prices tp] obtain opps
    where o: "find_arbitrage_opportunities (the_bot w) now ?prices tp = Inr opps"
             "list_all (sound_opp t ?prices tp) opps"
    by blast
  show ?thesis
  proof (cases opps)
    case Nil
    with o(1) show ?thesis
      by (simp add: check_pair_def Let_def checked_pairs_append completed_pairs_append)
  next
    case (Cons best rest)
    with o(2) have "pair best = str_pair tp" by (simp add: sound_opp_def)
    with o(1) Cons show ?thesis
      by (simp add: check_pair_def Let_def checked_pairs_append completed_pairs_append
          send_slack_notification_keeps)
  qed
qed

lemma scan_pairs_completes:
  assumes "threshold (the_bot w) = PyNum t"
  shows "\<exists>w'. scan_pairs api now i tps w = (None, w') \<and> the_bot w' = the_bot w \<and>
           checked_pairs (journal w') = checked_pairs (journal w) @ map str_pair tps \<and>
           completed_pairs (journal w') = completed_pairs (journal w) @ map str_pair tps"
  using assms
proof (induction tps arbitrary: w i)
  case Nil
  then show ?case by simp
next
  case (Cons tp rest)
  from check_pair_completes[OF Cons.prems, of api "now i" tp] obtain w1
    where w1: "check_pair api (now i) tp w = (None, w1)" "the_bot w1 = the_bot w"
      "checked_pairs (journal w1) = checked_pairs (journal w) @ [str_pair tp]"
      "completed_pairs (journal w1) = completed_pairs (journal w) @ [str_pair tp]"
    by blast
  from Cons.prems w1(2) have "threshold (the_bot w1) = PyNum t" by simp
  from Cons.IH[OF this, of "Suc i"] obtain w2
    where w2: "scan_pairs api now (Suc i) rest w1 = (None, w2)" "the_bot w2 = the_bot w1"
      "checked_pairs (journal w2) = checked_pairs (journal w1) @ map str_pair rest"
      "completed_pairs (journal w2) = completed_pairs (journal w1) @ map str_pair rest"
    by blast
  show ?case using w1 w2 by simp
qed

lemma monitor_cycle_b:
  "monitor_cycle api_b cycle_clock world_none
     = (world_none\<lparr>journal := [Checking ''WETH/USDC'', LoopError TypeError]\<rparr>, 30)"
  by (simp add: monitor_cycle_def check_pair_def get_prices_def api_b_def exchange_api_names_def
      find_arbitrage_opportunities_def collect_opportunities_def dict_keys_def
      consider_pair_def dict_getitem_def py_ge_def str_pair_def
      send_slack_notification_def
      world_none_def world_a_def bot_a_def weth_usdc_def wbtc_usdc_def link_usdc_def cycle_clock_def Let_def)

text \<open>
  C4, as stated, fails: the \<^verbatim>\<open>try\<close> of \<^verbatim>\<open>monitor_pairs\<close> encloses the whole \<^verbatim>\<open>for\<close> loop,
  so an exception that leaves one pair's evaluation ends the cycle. With a threshold of
  \<^verbatim>\<open>None\<close> (read from the configuration file) the comparison \<^verbatim>\<open>profit_percentage >= self.threshold\<close>
  raises \<^verbatim>\<open>TypeError\<close> for WETH/USDC, which has two quotes. The two other pairs have one
  quote each and would be evaluated without any exception, but the cycle never reaches
  them: it logs the error and sleeps 30 seconds.
\<close>

theorem monitor_cycle_abort_counterexample:
  "pairs (the_bot world_none) = [weth_usdc, wbtc_usdc, link_usdc]
   \<and> fst (check_pair api_b (cycle_clock 0) weth_usdc world_none) = Some TypeError
   \<and> fst (check_pair api_b (cycle_clock 1) wbtc_usdc world_none) = None
   \<and> fst (check_pair api_b (cycle_clock 2) link_usdc world_none) = None
   \<and> checked_pairs (journal (fst (monitor_cycle api_b cycle_clock world_none))) = [''WETH/USDC'']
   \<and> completed_pairs (journal (fst (monitor_cycle api_b cycle_clock world_none))) = []
   \<and> snd (monitor_cycle api_b cycle_clock world_none) = 30"
  by (simp add: monitor_cycle_b)
     (simp add: check_pair_def get_prices_def api_b_def exchange_api_names_def
      find_arbitrage_opportunities_def collect_opportunities_def dict_keys_def
      consider_pair_def dict_getitem_def py_ge_def str_pair_def
      world_none_def world_a_def bot_a_def weth_usdc_def wbtc_usdc_def link_usdc_def cycle_clock_def Let_def)

lemma scan_pairs_append:
  "scan_pairs api now i (before @ rest) w =
     (case scan_pairs api now i before w of
        (Some e, w') \<Rightarrow> (Some e, w')
      | (None, w') \<Rightarrow> scan_pairs api now (i + length before) rest w')"
  by (induction before arbitrary: i w) (auto split: prod.splits option.splits)

lemma check_pair_raises:
  "check_pair api now tp w = (Some e, w') \<Longrightarrow>
     w' = w\<lparr>journal := journal w @ [Checking (str_pair tp)]\<rparr>"
  by (auto simp: check_pair_def Let_def split: if_splits sum.splits list.splits)

lemma monitor_cycle_aborts:
  assumes "pairs (the_bot w) = before @ tp # remaining"
    and "scan_pairs api now 0 before w = (None, w1)"
    and "check_pair api (now (length before)) tp w1 = (Some e, w2)"
  shows "monitor_cycle api now w =
           (send_slack_notification (MonitoringErrorAlert e) ''danger''
              (w2\<lparr>journal := journal w2 @ [LoopError e]\<rparr>), 30)"
    and "journal w2 = journal w1 @ [Checking (str_pair tp)]"
    and "checked_pairs (journal (fst (monitor_cycle api now w)))
           = checked_pairs (journal w1) @ [str_pair tp]"
    and "completed_pairs (journal (fst (monitor_cycle api now w)))
           = completed_pairs (journal w1)"
proof -
  show c: "monitor_cycle api now w =
           (send_slack_notification (MonitoringErrorAlert e) ''danger''
              (w2\<lparr>journal := journal w2 @ [LoopError e]\<rparr>), 30)"
    using assms by (simp add: monitor_cycle_def scan_pairs_append)
  show j: "journal w2 = journal w1 @ [Checking (str_pair tp)]"
    using check_pair_raises[OF assms(3)] by simp
  show "checked_pairs (journal (fst (monitor_cycle api now w)))
           = checked_pairs (journal w1) @ [str_pair tp]"
    by (simp add: c j send_slack_notification_keeps checked_pairs_append)
  show "completed_pairs (journal (fst (monitor_cycle api now w)))
           = completed_pairs (journal w1)"
    by (simp add: c j send_slack_notification_keeps completed_pairs_append)
qed

lemma monitor_cycle_completes:
  assumes "threshold (the_bot w) = PyNum t"
  shows "snd (monitor_cycle api now w) = 60 \<and>
   checked_pairs (journal (fst (monitor_cycle api now w)))
     = checked_pairs (journal w) @ map str_pair (pairs (the_bot w)) \<and>
   completed_pairs (journal (fst (monitor_cycle api now w)))
     = completed_pairs (journal w) @ map str_pair (pairs (the_bot w))"
proof -
  from scan_pairs_completes[OF assms, of api now 0 "pairs (the_bot w)"] obtain w'
    where "scan_pairs api now 0 (pairs (the_bot w)) w = (None, w')"
      "checked_pairs (journal w') = checked_pairs (journal w) @ map str_pair (pairs (the_bot w))"
      "completed_pairs (journal w') = completed_pairs (journal w) @ map str_pair (pairs (the_bot w))"
    by blast
  then show ?thesis by (simp add: monitor_cycle_def)
qed

text \<open>
  C4, amended, in two parts. First: exceptions of a price lookup are caught inside
  \<^verbatim>\<open>get_prices\<close>, per exchange, so for a numeric threshold and adapters that raise, return
  \<^verbatim>\<open>None\<close> or return a float, a cycle starts and completes the evaluation of every
  configured pair, in order, and ends with the normal sleep of 60 seconds. Second: an
  exception that leaves the evaluation of one pair is not caught per pair. When the pairs
  before it were evaluated and the evaluation of \<open>tp\<close> raises \<open>e\<close>, the cycle logs the error,
  hands the failure notification to the webhook and sleeps 30 seconds; \<open>tp\<close> is the last
  pair whose check was started, and no check completes after those of the pairs before it:
  the remaining pairs are skipped.
\<close>

theorem monitor_cycle_exception_handling:
  "(threshold (the_bot w) = PyNum t \<longrightarrow>
      snd (monitor_cycle api now w) = 60 \<and>
      checked_pairs (journal (fst (monitor_cycle api now w)))
        = checked_pairs (journal w) @ map str_pair (pairs (the_bot w)) \<and>
      completed_pairs (journal (fst (monitor_cycle api now w)))
        = completed_pairs (journal w) @ map str_pair (pairs (the_bot w)))
   \<and> (pairs (the_bot v) = before @ tp # remaining \<and>
      scan_pairs api' now' 0 before v = (None, v1) \<and>
      check_pair api' (now' (length before)) tp v1 = (Some e, v2) \<longrightarrow>
      monitor_cycle api' now' v =
        (send_slack_notification (MonitoringErrorAlert e) ''danger''
           (v2\<lparr>journal := journal v2 @ [LoopError e]\<rparr>), 30) \<and>
      checked_pairs (journal (fst (monitor_cycle api' now' v)))
        = checked_pairs (journal v1) @ [str_pair tp] \<and>
      completed_pairs (journal (fst (monitor_cycle api' now' v)))
        = completed_pairs (journal v1))"
  using monitor_cycle_completes[of w t api now]
    monitor_cycle_aborts[of v before tp remaining api' now' v1 e v2]
  by blast

lemma api_a_wbtc_raises:
  "api_a ''uniswap'' (base wbtc_usdc) (quote wbtc_usdc) = ApiRaises ConnectionError"
  "api_a ''sushiswap'' (base wbtc_usdc) (quote wbtc_usdc) = ApiRaises ConnectionError"
  by (simp_all add: api_a_def wbtc_usdc_def)

lemma link_first_scan:
  "scan_pairs api_b cycle_clock 0 [link_usdc] world_none_link_first = (None, after_link)"
  by (simp add: check_pair_def get_prices_def api_b_def exchange_api_names_def
      find_arbitrage_opportunities_def str_pair_def after_link_def
      world_none_link_first_def world_a_def bot_a_def link_usdc_def Let_def)

lemma link_first_check:
  "check_pair api_b (cycle_clock (length [link_usdc])) weth_usdc after_link = (Some TypeError, after_weth)"
  by (simp add: check_pair_def get_prices_def api_b_def exchange_api_names_def
      find_arbitrage_opportunities_def collect_opportunities_def dict_keys_def
      consider_pair_def dict_getitem_def py_ge_def str_pair_def after_link_def after_weth_def
      world_none_link_first_def world_a_def bot_a_def weth_usdc_def Let_def)

text \<open>
  Both parts at concrete cycles. With threshold 1, three pairs and every price lookup of
  the second pair raising, all three pairs are evaluated. With threshold \<^verbatim>\<open>None\<close> and the
  pairs LINK, WETH, WBTC, the check of LINK completes, that of WETH raises \<^verbatim>\<open>TypeError\<close>,
  and WBTC is never checked.
\<close>

theorem monitor_cycle_exception_handling_witness:
  "threshold (the_bot world_a) = PyNum 1
   \<and> pairs (the_bot world_a) = [weth_usdc, wbtc_usdc, link_usdc]
   \<and> api_a ''uniswap'' (base wbtc_usdc) (quote wbtc_usdc) = ApiRaises ConnectionError
   \<and> api_a ''sushiswap'' (base wbtc_usdc) (quote wbtc_usdc) = ApiRaises ConnectionError
   \<and> snd (monitor_cycle api_a cycle_clock world_a) = 60
   \<and> checked_pairs (journal (fst (monitor_cycle api_a cycle_clock world_a)))
       = [''WETH/USDC'', ''WBTC/USDC'', ''LINK/USDC'']
   \<and> completed_pairs (journal (fst (monitor_cycle api_a cycle_clock world_a)))
       = [''WETH/USDC'', ''WBTC/USDC'', ''LINK/USDC'']
   \<and> pairs (the_bot world_none_link_first) = [link_usdc] @ weth_usdc # [wbtc_usdc]
   \<and> scan_pairs api_b cycle_clock 0 [link_usdc] world_none_link_first = (None, after_link)
   \<and> check_pair api_b (cycle_clock (length [link_usdc])) weth_usdc after_link
       = (Some TypeError, after_weth)
   \<and> snd (monitor_cycle api_b cycle_clock world_none_link_first) = 30
   \<and> checked_pairs (journal (fst (monitor_cycle api_b cycle_clock world_none_link_first)))
       = [''LINK/USDC'', ''WETH/USDC'']
   \<and> completed_pairs (journal (fst (monitor_cycle api_b cycle_clock world_none_link_first)))
       = [''LINK/USDC'']"
proof -
  have p: "pairs (the_bot world_none_link_first) = [link_usdc] @ weth_usdc # [wbtc_usdc]"
    by (simp add: world_none_link_first_def world_a_def bot_a_def)
  have a: "threshold (the_bot world_a) = PyNum 1"
    by (simp add: world_a_def bot_a_def)
  have a': "pairs (the_bot world_a) = [weth_usdc, wbtc_usdc, link_usdc]"
    by (simp add: world_a_def bot_a_def)
  have ja: "checked_pairs (journal world_a) @ map str_pair (pairs (the_bot world_a))
              = [''WETH/USDC'', ''WBTC/USDC'', ''LINK/USDC'']"
           "completed_pairs (journal world_a) @ map str_pair (pairs (the_bot world_a))
              = [''WETH/USDC'', ''WBTC/USDC'', ''LINK/USDC'']"
    by (simp_all add: world_a_def bot_a_def str_pair_def weth_usdc_def wbtc_usdc_def link_usdc_def)
  have jb: "checked_pairs (journal after_link) @ [str_pair weth_usdc] = [''LINK/USDC'', ''WETH/USDC'']"
           "completed_pairs (journal after_link) = [''LINK/USDC'']"
    by (simp_all add: after_link_def str_pair_def weth_usdc_def)
  note inst = monitor_cycle_exception_handling
      [of world_a 1 api_a cycle_clock world_none_link_first "[link_usdc]" weth_usdc "[wbtc_usdc]"
          api_b cycle_clock after_link TypeError after_weth]
  from inst a have completes:
    "snd (monitor_cycle api_a cycle_clock world_a) = 60"
    "checked_pairs (journal (fst (monitor_cycle api_a cycle_clock world_a)))
       = checked_pairs (journal world_a) @ map str_pair (pairs (the_bot world_a))"
    "completed_pairs (journal (fst (monitor_cycle api_a cycle_clock world_a)))
       = completed_pairs (journal world_a) @ map str_pair (pairs (the_bot world_a))"
    by blast+
  from inst p link_first_scan link_first_check have aborts:
    "monitor_cycle api_b cycle_clock world_none_link_first =
        (send_slack_notification (MonitoringErrorAlert TypeError) ''danger''
           (after_weth\<lparr>journal := journal after_weth @ [LoopError TypeError]\<rparr>), 30)"
    "checked_pairs (journal (fst (monitor_cycle api_b cycle_clock world_none_link_first)))
       = checked_pairs (journal after_link) @ [str_pair weth_usdc]"
    "completed_pairs (journal (fst (monitor_cycle api_b cycle_clock world_none_link_first)))
       = completed_pairs (journal after_link)"
    by blast+
  from aborts(1) have slept: "snd (monitor_cycle api_b cycle_clock world_none_link_first) = 30"
    by simp
  show ?thesis
    using a a' api_a_wbtc_raises p link_first_scan link_first_check slept
      completes(1) completes(2)[unfolded ja] completes(3)[unfolded ja]
      aborts(2)[unfolded jb] aborts(3)[unfolded jb]
    by blast
qed

section \<open>Configuration updates\<close>

text \<open>
  C3. The test suite of the repository (\<^verbatim>\<open>test_error_handling\<close>) calls
  \<^verbatim>\<open>bot.update_threshold(-1)\<close> and records a failure unless an exception is raised.
  \<^verbatim>\<open>ArbitrageBot.update_threshold\<close> raises nothing: on a bot with threshold 1 it returns
  normally, the threshold is then \<open>-1\<close>, and \<open>-1\<close> is what the configuration file holds.
\<close>

theorem update_threshold_accepts_negative:
  "fst (update_threshold (PyNum (- 1)) world_a) = None
   \<and> threshold (the_bot (snd (update_threshold (PyNum (- 1)) world_a))) = PyNum (- 1)
   \<and> map_option saved_threshold (config_file (snd (update_threshold (PyNum (- 1)) world_a)))
       = Some (PyNum (- 1))
   \<and> threshold (the_bot world_a) = PyNum 1"
  by (simp add: update_threshold_def save_config_def world_a_def bot_a_def)

lemma slack_threshold_nonpositive:
  "float_le thr 0 \<Longrightarrow> slack_update_threshold thr w = (ThresholdNotPositive, w)"
  by (simp add: slack_update_threshold_def)

lemma split_from_no_sep: "sep \<notin> set s \<Longrightarrow> split_from sep cur s = [rev cur @ s]"
  by (induction s arbitrary: cur) auto

lemma make_trading_pair_error: "make_trading_pair parts = Inl e \<Longrightarrow> e = TypeError"
  by (induction parts rule: make_trading_pair.induct) auto

lemma build_pairs_error: "build_pairs xs = Inl e \<Longrightarrow> e = TypeError"
  by (induction xs arbitrary: e) (auto split: sum.splits dest: make_trading_pair_error)

lemma build_pairs_no_slash:
  "\<exists>s \<in> set xs. CHR ''/'' \<notin> set s \<Longrightarrow> build_pairs xs = Inl TypeError"
proof (induction xs)
  case Nil
  then show ?case by simp
next
  case (Cons s rest)
  show ?case
  proof (cases "CHR ''/'' \<in> set s")
    case False
    then show ?thesis by (simp add: py_split_def split_from_no_sep)
  next
    case True
    with Cons.prems have "\<exists>s \<in> set rest. CHR ''/'' \<notin> set s" by auto
    then have "build_pairs rest = Inl TypeError" by (rule Cons.IH)
    then show ?thesis
      by (auto split: sum.splits dest: make_trading_pair_error)
  qed
qed

text \<open>
  C9. If one of the new pair strings contains no \<open>/\<close>, \<^verbatim>\<open>update_trading_pairs\<close> raises
  (\<^verbatim>\<open>TypeError\<close>, from the constructor of \<^verbatim>\<open>TradingPair\<close>) before it assigns: the pairs in
  memory, the configuration file and everything else are as before.
\<close>

theorem update_trading_pairs_atomic:
  "\<exists>s \<in> set new_pairs. CHR ''/'' \<notin> set s \<Longrightarrow>
     update_trading_pairs new_pairs w = (Some TypeError, w)"
  by (simp add: update_trading_pairs_def build_pairs_no_slash)

text \<open>
  The theorem at the list \<open>ETH/USDC, INVALID_PAIR\<close>: the first string is well formed, the
  second raises, and nothing has changed.
\<close>

theorem update_trading_pairs_atomic_witness:
  "update_trading_pairs [''ETH/USDC'', ''INVALID_PAIR''] world_a = (Some TypeError, world_a)
   \<and> pairs (the_bot world_a) = [weth_usdc, wbtc_usdc, link_usdc]
   \<and> config_file world_a = None"
  using update_trading_pairs_atomic [of "[''ETH/USDC'', ''INVALID_PAIR'']" world_a]
  by (simp add: world_a_def bot_a_def)

lemma slack_threshold_too_high:
  "float_gt thr 50 \<Longrightarrow> slack_update_threshold thr w = (ThresholdTooHigh, w)"
  by (cases thr) (simp_all add: slack_update_threshold_def)

lemma slack_threshold_finite_accepted_iff:
  "fst (slack_update_threshold (Finite x) w) = ThresholdUpdated (Finite x) \<longleftrightarrow> 0 < x \<and> x \<le> 50"
  by (auto simp: slack_update_threshold_def)

text \<open>
  C10. The two guards of the threshold command are written to let through the values of
  \<open>(0, 50]\<close> only, and they do reject every value above 50 and every value of at most 0
  (\<open>slack_threshold_too_high\<close>, \<open>slack_threshold_nonpositive\<close>). They miss NaN: the
  command \<^verbatim>\<open>threshold nan\<close> parses to \<^verbatim>\<open>float('nan')\<close>, for which both \<^verbatim>\<open>threshold <= 0\<close>
  and \<^verbatim>\<open>threshold > 50\<close> are false. On a bot with threshold 1 the command answers
  "updated", the threshold is then NaN, and NaN is what the configuration file holds.
\<close>

theorem slack_threshold_accepts_nan:
  "threshold (the_bot world_a) = PyNum 1
   \<and> fst (slack_update_threshold NaN world_a) = ThresholdUpdated NaN
   \<and> threshold (the_bot (snd (slack_update_threshold NaN world_a))) = PyNaN
   \<and> map_option saved_threshold (config_file (snd (slack_update_threshold NaN world_a)))
       = Some PyNaN"
  by (simp add: slack_update_threshold_def update_threshold_def save_config_def
      send_slack_notification_def world_a_def bot_a_def)

section \<open>Gas cost, loan sizing and net profit\<close>

lemma estimate_gas_cost_total: "\<exists>g. estimate_gas_cost fromWei fb = Inr g"
  by (auto simp: estimate_gas_cost_def split: option.splits sum.splits)

text \<open>
  C7. When the contract integration is missing or its \<^verbatim>\<open>get_gas_price\<close> raises,
  \<^verbatim>\<open>estimate_gas_cost\<close> returns the fixed fallback 0.01, which is strictly positive, and
  raises nothing.
\<close>

theorem estimate_gas_cost_fallback:
  "contract_integration fb = None \<or>
   (\<exists>ci e. contract_integration fb = Some ci \<and> get_gas_price ci = Inl e) \<Longrightarrow>
   estimate_gas_cost fromWei fb = Inr gas_fallback \<and> gas_fallback = 1 / 100 \<and> 0 < gas_fallback"
  by (auto simp: estimate_gas_cost_def gas_fallback_def)

text \<open>
  The theorem at a bot whose contract integration was never initialised.
\<close>

theorem estimate_gas_cost_fallback_witness:
  "contract_integration fbot_offline = None
   \<and> estimate_gas_cost wei_to_ether fbot_offline = Inr (1 / 100)"
  using estimate_gas_cost_fallback [of fbot_offline wei_to_ether]
  by (simp add: fbot_offline_def gas_fallback_def)




lemma calculate_flashloan_profit_raises:
  "calculate_flashloan_profit fromWei fb opp = Inl TypeError"
  by (simp add: calculate_flashloan_profit_def mul_decimal_def)

text \<open>
  C1. At the scenario of the claim (profit percentage 5, loan sizing 1000, fee rate 0.0009,
  gas cost estimate 2) the net profit should be \<open>1000 * 5 / 100 - 1000 * 0.0009 - 2 = 47.1\<close>.
  \<^verbatim>\<open>calculate_flashloan_profit\<close> returns nothing there: the loan amount it multiplies by
  the fee rate is a coroutine that was never awaited, and the multiplication raises
  \<^verbatim>\<open>TypeError\<close>. By \<open>calculate_flashloan_profit_raises\<close> it does so on every input.
\<close>

theorem flashloan_profit_type_error:
  "calculate_optimal_loan_amount fbot_a [(''profit_percentage'', 5)] = Inr 1000
   \<and> estimate_gas_cost wei_to_ether fbot_a = Inr 2
   \<and> 1000 * 5 / 100 - 1000 * (9 / 10000) - 2 = (471 / 10 :: real)
   \<and> calculate_flashloan_profit wei_to_ether fbot_a [(''profit_percentage'', 5)] = Inl TypeError"
  by (simp add: calculate_flashloan_profit_def mul_decimal_def
      calculate_optimal_loan_amount_def estimate_gas_cost_def get_gas_price_def
      dict_get_def fbot_a_def wei_to_ether_def)

end
